theory Spec2Isabelle
  imports Main "HOL-Library.Sublist"
begin

section \<open>Errors\<close>

text \<open>
  The exceptions the adapters raise or let through, as values. \<open>ReError\<close> is the
  error of the regular-expression library on a pattern it cannot compile, and
  \<open>NativeError\<close> stands for any exception of the engine (or of another collaborator)
  that the adapters do not catch.
\<close>

datatype error =
    AttributeError string
  | NotImplementedError
  | IbisError string
  | IbisInputError string
  | KeyError string
  | ReError
  | NativeError string

section \<open>File backend: \<open>ibis/backends/base/file/__init__.py\<close>\<close>

subsection \<open>Paths and the directory tree\<close>

text \<open>
  A \<open>pathlib\<close> path is the list of its components below the filesystem root. The
  tree is what \<open>is_dir\<close>, \<open>is_file\<close> and \<open>iterdir\<close> read; a directory holds its
  entries in the order \<open>iterdir\<close> yields them. \<open>Special\<close> is an entry that is
  neither a regular file nor a directory.
\<close>

type_synonym path = "string list"

datatype node = File | Special | Dir "(string \<times> node) list"

fun lookup :: "node \<Rightarrow> path \<Rightarrow> node option" where
  "lookup n [] = Some n"
| "lookup (Dir es) (c # cs) =
     (case map_of es c of None \<Rightarrow> None | Some m \<Rightarrow> lookup m cs)"
| "lookup File (c # cs) = None"
| "lookup Special (c # cs) = None"

definition is_dir :: "node \<Rightarrow> path \<Rightarrow> bool" where
  "is_dir fs p = (case lookup fs p of Some (Dir es) \<Rightarrow> True | _ \<Rightarrow> False)"

definition is_file :: "node \<Rightarrow> path \<Rightarrow> bool" where
  "is_file fs p = (case lookup fs p of Some File \<Rightarrow> True | _ \<Rightarrow> False)"

text \<open>\<open>path.iterdir()\<close>, called only under \<open>path.is_dir()\<close>.\<close>

definition iterdir :: "node \<Rightarrow> path \<Rightarrow> path list" where
  "iterdir fs p =
     (case lookup fs p of Some (Dir es) \<Rightarrow> map (\<lambda>e. p @ [fst e]) es | _ \<Rightarrow> [])"

text \<open>\<open>str(path)\<close> of an absolute path.\<close>

definition str :: "path \<Rightarrow> string" where
  "str p = (if p = [] then ''/'' else concat (map (\<lambda>c. ''/'' @ c) p))"

text \<open>\<open>s.endswith(t)\<close>.\<close>

definition endswith :: "string \<Rightarrow> string \<Rightarrow> bool" where
  "endswith s t = (length t \<le> length s \<and> drop (length s - length t) s = t)"

text \<open>\<open>s.rfind(c)\<close>, with \<open>None\<close> for Python's \<open>-1\<close>.\<close>

fun rfind :: "char \<Rightarrow> string \<Rightarrow> nat option" where
  "rfind c [] = None"
| "rfind c (x # xs) =
     (case rfind c xs of
        Some i \<Rightarrow> Some (Suc i)
      | None \<Rightarrow> (if x = c then Some 0 else None))"

text \<open>\<open>path.name\<close> (the last component) and \<open>path.stem\<close> (the name without its last suffix).\<close>

definition name_of :: "path \<Rightarrow> string" where
  "name_of p = (if p = [] then [] else last p)"

definition stem :: "path \<Rightarrow> string" where
  "stem p =
     (let n = name_of p in
      case rfind CHR ''.'' n of
        Some i \<Rightarrow> (if 0 < i \<and> Suc i < length n then take i n else n)
      | None \<Rightarrow> n)"

text \<open>
  \<open>path / s\<close>: the string is split at the separators, empty and \<open>.\<close> segments are
  dropped, and a string that starts with the separator replaces the path.
\<close>

fun split_sep :: "string \<Rightarrow> string \<Rightarrow> string list" where
  "split_sep acc [] = [rev acc]"
| "split_sep acc (x # xs) =
     (if x = CHR ''/'' then rev acc # split_sep [] xs else split_sep (x # acc) xs)"

definition segments :: "string \<Rightarrow> string list" where
  "segments s = filter (\<lambda>c. c \<noteq> [] \<and> c \<noteq> ''.'') (split_sep [] s)"

definition path_truediv :: "path \<Rightarrow> string \<Rightarrow> path" where
  "path_truediv p s = (if s \<noteq> [] \<and> hd s = CHR ''/'' then segments s else p @ segments s)"

subsection \<open>\<open>FileClient\<close> and \<open>FileDatabase\<close>\<close>

text \<open>
  \<open>FileClient\<close> holds the extension and the root. Its \<open>table\<close>, \<open>list_tables\<close> and
  \<open>list_databases\<close> raise \<open>NotImplementedError\<close>; a concrete backend subclasses the
  client and overrides them. The record \<open>file_methods\<close> holds the three methods in
  force, each taking the client (\<open>self\<close>) and the directory tree; \<open>'t\<close> is what the
  backend's \<open>table\<close> returns.
\<close>

record file_client =
  extension :: string
  root :: path

record 't file_methods =
  table_method :: "file_client \<Rightarrow> node \<Rightarrow> string \<Rightarrow> path option \<Rightarrow> error + 't"
  list_tables_method :: "file_client \<Rightarrow> node \<Rightarrow> path option \<Rightarrow> error + string list"
  list_databases_method :: "file_client \<Rightarrow> node \<Rightarrow> path option \<Rightarrow> error + string list"

record file_database =
  db_name :: string
  db_path :: "path option"

definition FileClient_table :: "file_client \<Rightarrow> node \<Rightarrow> string \<Rightarrow> path option \<Rightarrow> error + 't" where
  "FileClient_table c fs name path = Inl NotImplementedError"

definition FileClient_list_tables :: "file_client \<Rightarrow> node \<Rightarrow> path option \<Rightarrow> error + string list" where
  "FileClient_list_tables c fs path = Inl NotImplementedError"

definition FileClient_list_databases :: "file_client \<Rightarrow> node \<Rightarrow> path option \<Rightarrow> error + string list" where
  "FileClient_list_databases c fs path = Inl NotImplementedError"

text \<open>\<open>FileClient.database(name=None, path=None)\<close>.\<close>

definition FileClient_database :: "'t file_methods \<Rightarrow> file_client \<Rightarrow> node \<Rightarrow> string option \<Rightarrow> path option \<Rightarrow> error + file_database" where
  "FileClient_database m c fs name path =
     (case name of
        None \<Rightarrow> Inr \<lparr>db_name = ''root'', db_path = path\<rparr>
      | Some nm \<Rightarrow>
          (case list_databases_method m c fs path of
             Inl e \<Rightarrow> Inl e
           | Inr dbs \<Rightarrow>
               if nm \<notin> set dbs then Inl (AttributeError nm)
               else
                 let p = (case path of None \<Rightarrow> root c | Some q \<Rightarrow> q);
                     new_name = nm @ ''.'' @ extension c
                 in if is_dir fs (path_truediv (root c) nm)
                    then Inr \<lparr>db_name = nm, db_path = Some (path_truediv p nm)\<rparr>
                    else if \<not> endswith (str p) new_name
                    then Inr \<lparr>db_name = nm, db_path = Some (path_truediv p new_name)\<rparr>
                    else Inr \<lparr>db_name = nm, db_path = Some p\<rparr>))"

text \<open>\<open>FileClient._list_tables_files\<close>: the loop over \<open>path.iterdir()\<close> appends in order.\<close>

definition list_tables_files :: "file_client \<Rightarrow> node \<Rightarrow> path option \<Rightarrow> string list" where
  "list_tables_files c fs path =
     (let p = (case path of None \<Rightarrow> root c | Some q \<Rightarrow> q) in
      if is_dir fs p
      then map stem (filter (\<lambda>d. is_file fs d \<and> endswith (str d) (extension c)) (iterdir fs p))
      else if is_file fs p
      then (if endswith (str p) (extension c) then [stem p] else [])
      else [])"

text \<open>\<open>FileClient._list_databases_dirs\<close>.\<close>

definition list_databases_dirs :: "file_client \<Rightarrow> node \<Rightarrow> path option \<Rightarrow> string list" where
  "list_databases_dirs c fs path =
     (let p = (case path of None \<Rightarrow> root c | Some q \<Rightarrow> q) in
      if is_dir fs p
      then map name_of (filter (\<lambda>d. is_dir fs d) (iterdir fs p))
      else [])"

text \<open>\<open>FileClient._list_databases_dirs_or_files\<close>: one entry of the listing at a time.\<close>

definition dir_or_file_entry :: "file_client \<Rightarrow> node \<Rightarrow> path \<Rightarrow> string list" where
  "dir_or_file_entry c fs d =
     (if is_dir fs d then [name_of d]
      else if is_file fs d
      then (if endswith (str d) (extension c) then [stem d] else [])
      else [])"

definition list_databases_dirs_or_files :: "file_client \<Rightarrow> node \<Rightarrow> path option \<Rightarrow> string list" where
  "list_databases_dirs_or_files c fs path =
     (let p = (case path of None \<Rightarrow> root c | Some q \<Rightarrow> q) in
      if is_dir fs p
      then concat (map (dir_or_file_entry c fs) (iterdir fs p))
      else [])"

text \<open>
  \<open>FileDatabase.__getattr__\<close>: \<open>self.table\<close> and \<open>self.database\<close> forward to the
  client with the node's own path; only \<open>AttributeError\<close> is caught.
\<close>

datatype 't member = Table 't | Database file_database

definition FileDatabase_getattr :: "'t file_methods \<Rightarrow> file_client \<Rightarrow> node \<Rightarrow> file_database \<Rightarrow> string \<Rightarrow> error + 't member" where
  "FileDatabase_getattr m c fs self name =
     (case table_method m c fs name (db_path self) of
        Inr t \<Rightarrow> Inr (Table t)
      | Inl (AttributeError a) \<Rightarrow>
          (case FileClient_database m c fs (Some name) (db_path self) of
             Inr d \<Rightarrow> Inr (Database d)
           | Inl e \<Rightarrow> Inl e)
      | Inl e \<Rightarrow> Inl e)"

section \<open>Cluster backend: \<open>ibis/backends/pyspark/client.py\<close>\<close>

subsection \<open>Truthiness\<close>

text \<open>\<open>if x:\<close> for an optional string: \<open>None\<close> and the empty string are false.\<close>

definition truthy :: "string option \<Rightarrow> bool" where
  "truthy x = (case x of None \<Rightarrow> False | Some s \<Rightarrow> s \<noteq> [])"

text \<open>\<open>a or b\<close> on optional strings.\<close>

definition py_or :: "string option \<Rightarrow> string option \<Rightarrow> string option" where
  "py_or a b = (if truthy a then a else b)"

subsection \<open>Qualified names\<close>

text \<open>
  Modelled from the spec: the pattern \<open>fully_qualified_re\<close> and the predicate
  \<open>is_fully_qualified\<close>, which \<open>client.py\<close> imports from \<open>ibis.backends.base.sql.ddl\<close>;
  that module is not among the sources. The spec's glossary gives the shape of a
  fully-qualified name: \<open>database.table\<close>, the table part optionally quoted in
  backticks; \<open>_match_name\<close> reads three groups from a match: the database, the quoted
  table name and the unquoted one. The model is the Python pattern
  \<^verbatim>\<open>(.*)\.(?:`(.*)`|(.*))\<close>: the wildcard does not cross a line feed, every
  repetition is greedy, and a group that takes no part in the match is \<open>None\<close>.

  \<open>fully_qualified_re_match s\<close> is \<open>fully_qualified_re.match(s)\<close> (anchored at the
  start of \<open>s\<close>) with its \<open>groups()\<close>; the first group, being greedy, ends at the last
  dot of the first line, after which the unquoted alternative always succeeds.
\<close>

definition first_line :: "string \<Rightarrow> string" where
  "first_line s = takeWhile (\<lambda>c. c \<noteq> CHR 0x0A) s"

definition fully_qualified_re_match :: "string \<Rightarrow> (string \<times> string option \<times> string option) option" where
  "fully_qualified_re_match s =
     (let l = first_line s in
      case rfind CHR ''.'' l of
        None \<Rightarrow> None
      | Some i \<Rightarrow>
          (let db = take i l; rest = drop (Suc i) l in
           case rest of
             [] \<Rightarrow> Some (db, None, Some [])
           | b # r \<Rightarrow>
               (if b = CHR 0x60
                then (case rfind CHR 0x60 r of
                        Some j \<Rightarrow> Some (db, Some (take j r), None)
                      | None \<Rightarrow> Some (db, None, Some rest))
                else Some (db, None, Some rest))))"

text \<open>\<open>fully_qualified_re.search(s)\<close>: a match that starts at some position of \<open>s\<close>.\<close>

fun fully_qualified_re_search :: "string \<Rightarrow> bool" where
  "fully_qualified_re_search [] = (fully_qualified_re_match [] \<noteq> None)"
| "fully_qualified_re_search (x # xs) =
     (fully_qualified_re_match (x # xs) \<noteq> None \<or> fully_qualified_re_search xs)"

definition is_fully_qualified :: "string \<Rightarrow> bool" where
  "is_fully_qualified x = fully_qualified_re_search x"

text \<open>
  \<open>PySparkTable._match_name\<close> on the handle's qualified name: the pair of the database
  and the table name, each possibly \<open>None\<close>.
\<close>

definition match_name :: "string \<Rightarrow> string option \<times> string option" where
  "match_name qualified_name =
     (case fully_qualified_re_match qualified_name of
        None \<Rightarrow> (None, Some qualified_name)
      | Some (db, quoted, unquoted) \<Rightarrow> (Some db, py_or quoted unquoted))"

text \<open>\<open>PySparkClient._fully_qualified_name(name, database)\<close>.\<close>

definition fully_qualified_name :: "string \<Rightarrow> string option \<Rightarrow> string" where
  "fully_qualified_name name database =
     (if is_fully_qualified name then name
      else if truthy database then the database @ ''.'' @ [CHR 0x60] @ name @ [CHR 0x60]
      else name)"

subsection \<open>Catalog listings\<close>

text \<open>
  The entries of the engine's catalog, and the catalog as the client reads it:
  \<open>listTables(dbName)\<close> and \<open>listDatabases()\<close> either return their entries in the
  engine's order or raise.
\<close>

record catalog_table =
  table_name :: string
  table_database :: "string option"
  table_is_temporary :: bool

record catalog_database =
  database_name :: string
  database_location :: string

record catalog =
  listTables :: "string option \<Rightarrow> error + catalog_table list"
  listDatabases :: "error + catalog_database list"

text \<open>
  The regular-expression library (\<open>regex\<close>, imported as \<open>re\<close>) is outside the
  repository. It is a parameter \<open>rx\<close>: \<open>rx pattern\<close> is \<open>None\<close> when the library
  rejects the pattern, and otherwise \<open>Some M\<close> where \<open>M s\<close> tells whether
  \<open>re.match(pattern, s)\<close>, the match anchored at the start of \<open>s\<close>, is not \<open>None\<close>.
\<close>

type_synonym regex = "string \<Rightarrow> (string \<Rightarrow> bool) option"

definition re_match :: "regex \<Rightarrow> string \<Rightarrow> string \<Rightarrow> error + bool" where
  "re_match rx pattern s = (case rx pattern of None \<Rightarrow> Inl ReError | Some M \<Rightarrow> Inr (M s))"

text \<open>
  The comprehension \<open>[n for n in results if re.match(like, n) is not None]\<close>: the
  names are tested in order, and the first error ends the loop.
\<close>

fun filter_like :: "regex \<Rightarrow> string \<Rightarrow> string list \<Rightarrow> error + string list" where
  "filter_like rx like [] = Inr []"
| "filter_like rx like (n # ns) =
     (case re_match rx like n of
        Inl e \<Rightarrow> Inl e
      | Inr b \<Rightarrow>
          (case filter_like rx like ns of
             Inl e \<Rightarrow> Inl e
           | Inr r \<Rightarrow> Inr (if b then n # r else r)))"

text \<open>\<open>PySparkClient.list_tables(like=None, database=None)\<close>.\<close>

definition list_tables :: "regex \<Rightarrow> catalog \<Rightarrow> string option \<Rightarrow> string option \<Rightarrow> error + string list" where
  "list_tables rx cat like database =
     (case listTables cat database of
        Inl e \<Rightarrow> Inl e
      | Inr ts \<Rightarrow>
          (let results = map table_name ts in
           if truthy like then filter_like rx (the like) results else Inr results))"

text \<open>\<open>PySparkClient.list_databases(like=None)\<close>.\<close>

definition list_databases :: "regex \<Rightarrow> catalog \<Rightarrow> string option \<Rightarrow> error + string list" where
  "list_databases rx cat like =
     (case listDatabases cat of
        Inl e \<Rightarrow> Inl e
      | Inr ds \<Rightarrow>
          (let results = map database_name ds in
           if truthy like then filter_like rx (the like) results else Inr results))"

text \<open>\<open>PySparkClient.exists_database(name)\<close>: \<open>bool\<close> of the filtered listing.\<close>

definition exists_database :: "regex \<Rightarrow> catalog \<Rightarrow> string \<Rightarrow> error + bool" where
  "exists_database rx cat name =
     (case list_databases rx cat (Some name) of
        Inl e \<Rightarrow> Inl e
      | Inr results \<Rightarrow> Inr (results \<noteq> []))"

text \<open>
  A reference matcher for the examples: patterns made of letters, digits, underscores
  and the wildcard \<open>.\<close> only, where each pattern character consumes one character of
  the string. Any other pattern is outside this fragment and is given no matcher.
\<close>

definition plain_char :: "char \<Rightarrow> bool" where
  "plain_char c =
     (let k = of_char c :: nat in
      (48 \<le> k \<and> k \<le> 57) \<or> (65 \<le> k \<and> k \<le> 90) \<or> (97 \<le> k \<and> k \<le> 122) \<or> k = 95)"

fun match_plain :: "string \<Rightarrow> string \<Rightarrow> bool" where
  "match_plain [] s = True"
| "match_plain (p # ps) [] = False"
| "match_plain (p # ps) (x # xs) =
     ((if p = CHR ''.'' then x \<noteq> CHR 0x0A else p = x) \<and> match_plain ps xs)"

definition rx_plain :: regex where
  "rx_plain pattern =
     (if list_all (\<lambda>c. plain_char c \<or> c = CHR ''.'') pattern
      then Some (match_plain pattern) else None)"

subsection \<open>Native calls and their log\<close>

text \<open>
  The calls the client issues to the engine session and to its collaborators (the
  expression compiler and the statement builders of \<open>ddl\<close>). \<open>'e\<close> is an expression,
  \<open>'p\<close> an in-memory (pandas) frame, \<open>'n\<close> a native handle (an engine frame, a select
  statement, a query), \<open>'s\<close> a schema.
\<close>

datatype ('n, 's) statement =
    CTAS string 'n "string option" bool string
  | CreateTableWithSchema string 's "string option" string bool
  | InsertSelect string 'n bool

datatype ('e, 'p, 'n, 's) native_call =
    CreateDataFrame 'p
  | SaveAsTable 'n string string string
  | InsertInto 'n string bool
  | ToAst 'e
  | Compile "('n, 's) statement"
  | Sql string

text \<open>
  What each call answers is a parameter: \<open>to_ast\<close> is \<open>compiler.to_ast(expr).queries[0]\<close>,
  \<open>compile_statement\<close> is \<open>statement.compile()\<close> of a statement built by \<open>ddl\<close>, \<open>sql\<close> is
  \<open>self._session.sql(stmt)\<close>, which \<open>raw_sql\<close> wraps in a cursor.
\<close>

record ('e, 'p, 'n, 's) session =
  createDataFrame :: "'p \<Rightarrow> error + 'n"
  saveAsTable :: "'n \<Rightarrow> string \<Rightarrow> string \<Rightarrow> string \<Rightarrow> error + unit"
  insertInto :: "'n \<Rightarrow> string \<Rightarrow> bool \<Rightarrow> error + unit"
  to_ast :: "'e \<Rightarrow> error + 'n"
  compile_statement :: "('n, 's) statement \<Rightarrow> error + string"
  sql :: "string \<Rightarrow> error + 'n"

text \<open>
  A run is the log of the native calls issued, in order, with the value returned or
  the exception raised.
\<close>

type_synonym ('c, 'a) run = "'c list \<times> (error + 'a)"

definition ret :: "'a \<Rightarrow> ('c, 'a) run" where
  "ret x = ([], Inr x)"

definition raise :: "error \<Rightarrow> ('c, 'a) run" where
  "raise e = ([], Inl e)"

definition call :: "'c \<Rightarrow> error + 'a \<Rightarrow> ('c, 'a) run" where
  "call c answer = ([c], answer)"

definition and_then :: "('c, 'a) run \<Rightarrow> ('a \<Rightarrow> ('c, 'b) run) \<Rightarrow> ('c, 'b) run" where
  "and_then m f =
     (case snd m of
        Inl e \<Rightarrow> (fst m, Inl e)
      | Inr x \<Rightarrow> (fst m @ fst (f x), snd (f x)))"

text \<open>\<open>PySparkClient.raw_sql(stmt)\<close>.\<close>

definition raw_sql :: "('e, 'p, 'n, 's) session \<Rightarrow> string \<Rightarrow> (('e, 'p, 'n, 's) native_call, 'n) run" where
  "raw_sql env stmt = call (Sql stmt) (sql env stmt)"

subsection \<open>\<open>create_table\<close>\<close>

text \<open>
  The \<open>obj\<close> argument, told apart by \<open>isinstance(obj, pd.DataFrame)\<close>: an in-memory
  frame, or anything else, which is taken for an expression.
\<close>

datatype ('e, 'p) obj = Pandas 'p | Expression 'e

text \<open>
  \<open>PySparkClient.create_table(table_name, obj=None, schema=None, database=None,
  force=False, format='parquet')\<close>. The frame branch returns \<open>None\<close>, the others the
  cursor of \<open>raw_sql\<close>.
\<close>

definition create_table ::
  "('e, 'p, 'n, 's) session \<Rightarrow> string \<Rightarrow> ('e, 'p) obj option \<Rightarrow> 's option \<Rightarrow> string option \<Rightarrow> bool \<Rightarrow> string
     \<Rightarrow> (('e, 'p, 'n, 's) native_call, 'n option) run" where
  "create_table env name ob schema database force format =
     (case ob of
        Some (Pandas df) \<Rightarrow>
          and_then (call (CreateDataFrame df) (createDataFrame env df)) (\<lambda>spark_df.
            let mode = (if force then ''overwrite'' else ''error'') in
            and_then (call (SaveAsTable spark_df name format mode)
                           (saveAsTable env spark_df name format mode)) (\<lambda>u.
              ret None))
      | Some (Expression e) \<Rightarrow>
          and_then (call (ToAst e) (to_ast env e)) (\<lambda>select.
            let statement = CTAS name select database force format in
            and_then (call (Compile statement) (compile_statement env statement)) (\<lambda>stmt.
              and_then (raw_sql env stmt) (\<lambda>cur. ret (Some cur))))
      | None \<Rightarrow>
          (case schema of
             Some sc \<Rightarrow>
               (let statement = CreateTableWithSchema name sc database format force in
                and_then (call (Compile statement) (compile_statement env statement)) (\<lambda>stmt.
                  and_then (raw_sql env stmt) (\<lambda>cur. ret (Some cur))))
           | None \<Rightarrow> raise (IbisError ''Must pass expr or schema'')))"

subsection \<open>\<open>PySparkTable.insert\<close>\<close>

text \<open>
  A schema is the ordered list of its columns, name and type; \<open>names\<close> lists the
  names, \<open>schema[name]\<close> is a lookup that raises on a missing name, and \<open>equals\<close> is
  equality of names and types in order. The type system is outside the sources:
  \<open>castable\<close> is \<open>lt.castable(rt)\<close> and \<open>repr\<close> prints a type.
\<close>

type_synonym 't schema = "(string \<times> 't) list"

definition names :: "'t schema \<Rightarrow> string list" where
  "names sc = map fst sc"

definition getitem :: "'t schema \<Rightarrow> string \<Rightarrow> error + 't" where
  "getitem sc name = (case map_of sc name of None \<Rightarrow> Inl (KeyError name) | Some t \<Rightarrow> Inr t)"

record 't types =
  castable :: "'t \<Rightarrow> 't \<Rightarrow> bool"
  repr :: "'t \<Rightarrow> string"

text \<open>The loop of \<open>_validate_compatible\<close> over the names of \<open>from_schema\<close>.\<close>

fun validate_columns :: "'t types \<Rightarrow> 't schema \<Rightarrow> 't schema \<Rightarrow> string list \<Rightarrow> error + unit" where
  "validate_columns ty from_schema to_schema [] = Inr ()"
| "validate_columns ty from_schema to_schema (name # rest) =
     (case getitem from_schema name of
        Inl e \<Rightarrow> Inl e
      | Inr lt \<Rightarrow>
          (case getitem to_schema name of
             Inl e \<Rightarrow> Inl e
           | Inr rt \<Rightarrow>
               if \<not> castable ty lt rt
               then Inl (IbisInputError (''Cannot safely cast '' @ repr ty lt @ '' to '' @ repr ty rt))
               else validate_columns ty from_schema to_schema rest))"

text \<open>\<open>PySparkTable._validate_compatible(from_schema, to_schema)\<close>.\<close>

definition validate_compatible :: "'t types \<Rightarrow> 't schema \<Rightarrow> 't schema \<Rightarrow> error + unit" where
  "validate_compatible ty from_schema to_schema =
     (if set (names from_schema) \<noteq> set (names to_schema)
      then Inl (IbisInputError ''Schemas have different names'')
      else validate_columns ty from_schema to_schema (names from_schema))"

text \<open>
  The table handle: its name, its qualified name and its schema. A table expression
  passed as \<open>obj\<close> is the expression with its schema.
\<close>

record 't spark_table =
  handle_name :: string
  qualified_name :: string
  handle_schema :: "'t schema"

text \<open>
  \<open>PySparkTable.insert(obj=None, overwrite=False, values=None, validate=True)\<close>, for
  an \<open>obj\<close> of one of the two documented kinds. \<open>'w\<close> is the type of \<open>values\<close>.
\<close>

definition PySparkTable_insert ::
  "('e, 'p, 'n, 's) session \<Rightarrow> 't types \<Rightarrow> 't spark_table \<Rightarrow> ('e \<times> 't schema, 'p) obj \<Rightarrow> bool \<Rightarrow> 'w option \<Rightarrow> bool
     \<Rightarrow> (('e, 'p, 'n, 's) native_call, 'n option) run" where
  "PySparkTable_insert env ty self ob overwrite values validate =
     (case ob of
        Pandas df \<Rightarrow>
          and_then (call (CreateDataFrame df) (createDataFrame env df)) (\<lambda>spark_df.
            and_then (call (InsertInto spark_df (handle_name self) overwrite)
                           (insertInto env spark_df (handle_name self) overwrite)) (\<lambda>u.
              ret None))
      | Expression expr \<Rightarrow>
          if values \<noteq> None then raise NotImplementedError
          else
            and_then
              (if validate
               then (let existing_schema = handle_schema self;
                         insert_schema = snd expr
                     in if \<not> (insert_schema = existing_schema)
                        then ([], validate_compatible ty insert_schema existing_schema)
                        else ret ())
               else ret ())
              (\<lambda>u.
                 and_then (call (ToAst (fst expr)) (to_ast env (fst expr))) (\<lambda>select.
                   let statement = InsertSelect (qualified_name self) select overwrite in
                   and_then (call (Compile statement) (compile_statement env statement)) (\<lambda>stmt.
                     and_then (raw_sql env stmt) (\<lambda>cur. ret (Some cur))))))"

subsection \<open>\<open>compile\<close> and \<open>execute\<close>\<close>

text \<open>
  An expression is told apart by the \<open>isinstance\<close> tests of \<open>execute\<close>: a table, a
  column or a scalar expression, or an expression of another class, which carries
  the text of its type.
\<close>

datatype 'e expr = TableExpr 'e | ColumnExpr 'e | ScalarExpr 'e | OtherExpr string 'e

text \<open>What the translator returns: an engine frame or a bare engine column.\<close>

datatype ('f, 'c) compiled = DataFrame 'f | Column 'c

record ('e, 'v, 'tc) scope =
  bindings :: "('e \<times> 'v) list"
  scope_timecontext :: "'tc option"

text \<open>
  The collaborators of \<open>compile\<close> and \<open>execute\<close>, each of which may raise: the session
  configuration, the time-context helpers, the translator, the expression methods
  \<open>op\<close>, \<open>name\<close> and \<open>to_projection\<close>, the engine's \<open>toPandas\<close> and
  \<open>range(0, 1).select\<close>, and the frame accessors \<open>[column]\<close> and \<open>iloc[i, j]\<close>.
\<close>

record ('e, 'v, 'tc, 'f, 'c, 'd, 'r) engine =
  conf_get :: "string \<Rightarrow> error + string"
  canonicalize_context :: "'tc \<Rightarrow> error + 'tc"
  localize_context :: "'tc \<Rightarrow> string \<Rightarrow> error + 'tc"
  param_op :: "'e \<Rightarrow> 'e"
  translate :: "'e expr \<Rightarrow> ('e, 'v, 'tc) scope \<Rightarrow> 'tc option \<Rightarrow> error + ('f, 'c) compiled"
  expr_name :: "'e \<Rightarrow> string \<Rightarrow> error + 'e"
  to_projection :: "'e \<Rightarrow> error + 'e"
  toPandas :: "('f, 'c) compiled \<Rightarrow> error + 'd"
  range_select :: "'c \<Rightarrow> error + 'f"
  frame_column :: "'d \<Rightarrow> string \<Rightarrow> error + 'r"
  frame_iloc :: "'d \<Rightarrow> nat \<Rightarrow> nat \<Rightarrow> error + 'r"

text \<open>Sequencing of calls that may raise.\<close>

definition bind_result :: "error + 'a \<Rightarrow> ('a \<Rightarrow> error + 'b) \<Rightarrow> error + 'b" where
  "bind_result m f = (case m of Inl e \<Rightarrow> Inl e | Inr x \<Rightarrow> f x)"

text \<open>\<open>PySparkClient.compile(expr, timecontext=None, params=None)\<close>.\<close>

definition compile ::
  "('e, 'v, 'tc, 'f, 'c, 'd, 'r) engine \<Rightarrow> 'e expr \<Rightarrow> 'tc option \<Rightarrow> ('e \<times> 'v) list option
     \<Rightarrow> error + ('f, 'c) compiled" where
  "compile g expr timecontext params =
     bind_result
       (case timecontext of
          None \<Rightarrow> Inr None
        | Some tc \<Rightarrow>
            bind_result (conf_get g ''spark.sql.session.timeZone'') (\<lambda>session_timezone.
              bind_result (canonicalize_context g tc) (\<lambda>canonical.
                bind_result (localize_context g canonical session_timezone) (\<lambda>localized.
                  Inr (Some localized)))))
       (\<lambda>timecontext'.
          let scope = (case params of
                         None \<Rightarrow> \<lparr>bindings = [], scope_timecontext = None\<rparr>
                       | Some ps \<Rightarrow>
                           \<lparr>bindings = map (\<lambda>b. (param_op g (fst b), snd b)) ps,
                            scope_timecontext = timecontext'\<rparr>)
          in translate g expr scope timecontext')"

text \<open>
  The value \<open>execute\<close> returns: the materialized frame, the extracted column, or the
  extracted cell.
\<close>

datatype ('d, 'r) executed = Frame 'd | Series 'r | Cell 'r

text \<open>\<open>PySparkClient.execute(expr, timecontext=None, params=None, limit='default')\<close>.\<close>

definition execute ::
  "('e, 'v, 'tc, 'f, 'c, 'd, 'r) engine \<Rightarrow> 'e expr \<Rightarrow> 'tc option \<Rightarrow> ('e \<times> 'v) list option
     \<Rightarrow> error + ('d, 'r) executed" where
  "execute g expr timecontext params =
     (case expr of
        TableExpr e \<Rightarrow>
          bind_result (compile g expr timecontext params) (\<lambda>compiled.
            bind_result (toPandas g compiled) (\<lambda>df. Inr (Frame df)))
      | ColumnExpr e \<Rightarrow>
          bind_result (expr_name g e ''tmp'') (\<lambda>named.
            bind_result (to_projection g named) (\<lambda>projection.
              bind_result (compile g (TableExpr projection) timecontext params) (\<lambda>compiled.
                bind_result (toPandas g compiled) (\<lambda>df.
                  bind_result (frame_column g df ''tmp'') (\<lambda>col. Inr (Series col))))))
      | ScalarExpr e \<Rightarrow>
          bind_result (compile g expr timecontext params) (\<lambda>compiled.
            bind_result
              (case compiled of
                 Column c \<Rightarrow> bind_result (range_select g c) (\<lambda>f. Inr (DataFrame f))
               | DataFrame f \<Rightarrow> Inr compiled)
              (\<lambda>compiled'.
                 bind_result (toPandas g compiled') (\<lambda>df.
                   bind_result (frame_iloc g df 0 0) (\<lambda>cell. Inr (Cell cell)))))
      | OtherExpr ty e \<Rightarrow>
          Inl (IbisError (''Cannot execute expression of type: '' @ ty)))"

section \<open>Pandas backend: \<open>ibis/backends/pandas/execution/constants.py\<close>\<close>

text \<open>
  The keys of \<open>BINARY_OPERATIONS\<close> are operation classes. The values are functions of
  Python's \<open>operator\<close> module, which dispatch on their operands, and one lambda that
  also calls \<open>pd.isnull\<close>; the record holds what these do on the operands of type \<open>'v\<close>
  (scalars or columns, truth values included).
\<close>

datatype binary_op =
    Greater | Less | LessEqual | GreaterEqual | Equals | NotEquals
  | And | Or | Xor
  | Add | Subtract | Multiply | Divide | FloorDivide | Modulus | Power
  | IdenticalTo

record 'v operator =
  operator_gt :: "'v \<Rightarrow> 'v \<Rightarrow> 'v"
  operator_lt :: "'v \<Rightarrow> 'v \<Rightarrow> 'v"
  operator_le :: "'v \<Rightarrow> 'v \<Rightarrow> 'v"
  operator_ge :: "'v \<Rightarrow> 'v \<Rightarrow> 'v"
  operator_eq :: "'v \<Rightarrow> 'v \<Rightarrow> 'v"
  operator_ne :: "'v \<Rightarrow> 'v \<Rightarrow> 'v"
  operator_and :: "'v \<Rightarrow> 'v \<Rightarrow> 'v"
  operator_or :: "'v \<Rightarrow> 'v \<Rightarrow> 'v"
  operator_xor :: "'v \<Rightarrow> 'v \<Rightarrow> 'v"
  operator_add :: "'v \<Rightarrow> 'v \<Rightarrow> 'v"
  operator_sub :: "'v \<Rightarrow> 'v \<Rightarrow> 'v"
  operator_mul :: "'v \<Rightarrow> 'v \<Rightarrow> 'v"
  operator_truediv :: "'v \<Rightarrow> 'v \<Rightarrow> 'v"
  operator_floordiv :: "'v \<Rightarrow> 'v \<Rightarrow> 'v"
  operator_mod :: "'v \<Rightarrow> 'v \<Rightarrow> 'v"
  operator_pow :: "'v \<Rightarrow> 'v \<Rightarrow> 'v"
  pd_isnull :: "'v \<Rightarrow> 'v"

text \<open>The dictionary, in the order it is written.\<close>

definition BINARY_OPERATIONS :: "'v operator \<Rightarrow> (binary_op \<times> ('v \<Rightarrow> 'v \<Rightarrow> 'v)) list" where
  "BINARY_OPERATIONS P =
     [(Greater, operator_gt P),
      (Less, operator_lt P),
      (LessEqual, operator_le P),
      (GreaterEqual, operator_ge P),
      (Equals, operator_eq P),
      (NotEquals, operator_ne P),
      (And, operator_and P),
      (Or, operator_or P),
      (Xor, operator_xor P),
      (Add, operator_add P),
      (Subtract, operator_sub P),
      (Multiply, operator_mul P),
      (Divide, operator_truediv P),
      (FloorDivide, operator_floordiv P),
      (Modulus, operator_mod P),
      (Power, operator_pow P),
      (IdenticalTo, \<lambda>x y. operator_or P (operator_eq P x y)
                                 (operator_and P (pd_isnull P x) (pd_isnull P y)))]"

section \<open>Examples\<close>

text \<open>
  A backend in the style of the format backends: a table is a name of
  \<open>_list_tables_files\<close>, the databases are those of \<open>_list_databases_dirs_or_files\<close>.
  The tree holds two files and a directory under the root \<open>/data\<close>, and below the
  directory a file and a directory of the same name, and one more directory.
\<close>

definition example_methods :: "string file_methods" where
  "example_methods =
     \<lparr>table_method = (\<lambda>c fs name path.
        if name \<in> set (list_tables_files c fs path) then Inr name else Inl (AttributeError name)),
      list_tables_method = (\<lambda>c fs path. Inr (list_tables_files c fs path)),
      list_databases_method = (\<lambda>c fs path. Inr (list_databases_dirs_or_files c fs path))\<rparr>"

definition example_client :: file_client where
  "example_client = \<lparr>extension = ''csv'', root = [''data'']\<rparr>"

definition example_tree :: node where
  "example_tree =
     Dir [(''data'',
           Dir [(''a.csv'', File), (''b.csv'', File),
                (''sub'', Dir [(''foo.csv'', File), (''foo'', Dir []), (''inner'', Dir [])])])]"

text \<open>A catalog with four tables and two databases, for the listing examples.\<close>

definition example_tables :: "catalog_table list" where
  "example_tables =
     [\<lparr>table_name = ''foo_a'', table_database = Some ''default'', table_is_temporary = False\<rparr>,
      \<lparr>table_name = ''bar'', table_database = Some ''default'', table_is_temporary = False\<rparr>,
      \<lparr>table_name = ''a_foo'', table_database = Some ''default'', table_is_temporary = False\<rparr>,
      \<lparr>table_name = ''foo'', table_database = None, table_is_temporary = True\<rparr>]"

definition example_databases :: "catalog_database list" where
  "example_databases =
     [\<lparr>database_name = ''default'', database_location = ''/warehouse''\<rparr>,
      \<lparr>database_name = ''foobar'', database_location = ''/warehouse/foobar.db''\<rparr>]"

definition example_catalog :: catalog where
  "example_catalog =
     \<lparr>listTables = (\<lambda>database. Inr example_tables), listDatabases = Inr example_databases\<rparr>"

text \<open>
  A small domain of operands for the examples of the binary operations: a missing
  value, integers and truth values. A comparison with the missing value is false
  (true for \<open>ne\<close>), as with a float NaN; the logical operators act on the truth of
  their operands; the arithmetic is that of the integers, the quotient standing in
  for both divisions, and gives the missing value on any other operand.
\<close>

datatype scalar = NaN | Num int | Truth bool

definition truth :: "scalar \<Rightarrow> bool" where
  "truth v = (case v of Truth b \<Rightarrow> b | Num n \<Rightarrow> n \<noteq> 0 | NaN \<Rightarrow> True)"

definition compare :: "(int \<Rightarrow> int \<Rightarrow> bool) \<Rightarrow> bool \<Rightarrow> scalar \<Rightarrow> scalar \<Rightarrow> scalar" where
  "compare r nan x y =
     (case (x, y) of
        (Num a, Num b) \<Rightarrow> Truth (r a b)
      | (Truth a, Truth b) \<Rightarrow> Truth (r (of_bool a) (of_bool b))
      | (Num a, Truth b) \<Rightarrow> Truth (r a (of_bool b))
      | (Truth a, Num b) \<Rightarrow> Truth (r (of_bool a) b)
      | _ \<Rightarrow> Truth nan)"

definition logical :: "(bool \<Rightarrow> bool \<Rightarrow> bool) \<Rightarrow> scalar \<Rightarrow> scalar \<Rightarrow> scalar" where
  "logical f x y = Truth (f (truth x) (truth y))"

definition arith :: "(int \<Rightarrow> int \<Rightarrow> int) \<Rightarrow> scalar \<Rightarrow> scalar \<Rightarrow> scalar" where
  "arith f x y =
     (case (x, y) of
        (Num a, Num b) \<Rightarrow> Num (f a b)
      | _ \<Rightarrow> NaN)"

definition scalar_operator :: "scalar operator" where
  "scalar_operator =
     \<lparr>operator_gt = compare (\<lambda>a b. a > b) False,
      operator_lt = compare (\<lambda>a b. a < b) False,
      operator_le = compare (\<lambda>a b. a \<le> b) False,
      operator_ge = compare (\<lambda>a b. a \<ge> b) False,
      operator_eq = compare (\<lambda>a b. a = b) False,
      operator_ne = compare (\<lambda>a b. a \<noteq> b) True,
      operator_and = logical (\<lambda>a b. a \<and> b),
      operator_or = logical (\<lambda>a b. a \<or> b),
      operator_xor = logical (\<lambda>a b. a \<noteq> b),
      operator_add = arith (\<lambda>a b. a + b),
      operator_sub = arith (\<lambda>a b. a - b),
      operator_mul = arith (\<lambda>a b. a * b),
      operator_truediv = arith (\<lambda>a b. a div b),
      operator_floordiv = arith (\<lambda>a b. a div b),
      operator_mod = arith (\<lambda>a b. a mod b),
      operator_pow = arith (\<lambda>a b. a ^ nat b),
      pd_isnull = (\<lambda>x. Truth (x = NaN))\<rparr>"

text \<open>
  A session whose calls all succeed, for the examples of \<open>create_table\<close> and \<open>insert\<close>:
  expressions, frames and native handles are texts, and a schema lists type names.
  Of the types, \<open>int32\<close> casts to \<open>int64\<close> and every type to itself. The handle is a
  table of two \<open>string\<close> columns.
\<close>

definition example_compile_statement :: "(string, string schema) statement \<Rightarrow> string" where
  "example_compile_statement st =
     (case st of
        CTAS name select database can_exist format \<Rightarrow> ''CREATE TABLE '' @ name @ '' AS '' @ select
      | CreateTableWithSchema name sc database format can_exist \<Rightarrow> ''CREATE TABLE '' @ name
      | InsertSelect name select overwrite \<Rightarrow> ''INSERT INTO '' @ name @ '' '' @ select)"

definition example_session :: "(string, string, string, string schema) session" where
  "example_session =
     \<lparr>createDataFrame = (\<lambda>df. Inr (''frame of '' @ df)),
      saveAsTable = (\<lambda>spark_df name format mode. Inr ()),
      insertInto = (\<lambda>spark_df name overwrite. Inr ()),
      to_ast = (\<lambda>e. Inr (''SELECT * FROM '' @ e)),
      compile_statement = (\<lambda>st. Inr (example_compile_statement st)),
      sql = (\<lambda>stmt. Inr (''result of '' @ stmt))\<rparr>"

definition example_types :: "string types" where
  "example_types =
     \<lparr>castable = (\<lambda>lt rt. lt = rt \<or> (lt = ''int32'' \<and> rt = ''int64'')),
      repr = (\<lambda>t. t)\<rparr>"

definition example_handle :: "string spark_table" where
  "example_handle =
     \<lparr>handle_name = ''t'', qualified_name = ''db.`t`'',
      handle_schema = [(''a'', ''string''), (''b'', ''string'')]\<rparr>"

text \<open>
  An engine whose calls succeed, for the examples of \<open>execute\<close>: the translator gives
  a frame for a table expression and a bare column for a column or scalar
  expression, and only a frame converts to pandas.
\<close>

definition example_engine :: "(string, string, string, string, string, string, string) engine" where
  "example_engine =
     \<lparr>conf_get = (\<lambda>key. Inr ''UTC''),
      canonicalize_context = (\<lambda>tc. Inr tc),
      localize_context = (\<lambda>tc tz. Inr (tc @ '' '' @ tz)),
      param_op = (\<lambda>p. p),
      translate = (\<lambda>expr scope tc.
        case expr of
          TableExpr e \<Rightarrow> Inr (DataFrame (''frame '' @ e))
        | ColumnExpr e \<Rightarrow> Inr (Column (''column '' @ e))
        | ScalarExpr e \<Rightarrow> Inr (Column (''column '' @ e))
        | OtherExpr ty e \<Rightarrow> Inl (NativeError ty)),
      expr_name = (\<lambda>e name. Inr (e @ '' as '' @ name)),
      to_projection = (\<lambda>e. Inr (''select '' @ e)),
      toPandas = (\<lambda>c. case c of DataFrame f \<Rightarrow> Inr (''pandas '' @ f)
                               | Column col \<Rightarrow> Inl (NativeError ''Column is not callable'')),
      range_select = (\<lambda>c. Inr (''one row of '' @ c)),
      frame_column = (\<lambda>df name. Inr (df @ '' ['' @ name @ '']'')),
      frame_iloc = (\<lambda>df i j. Inr (''cell of '' @ df))\<rparr>"

section \<open>Properties\<close>

subsection \<open>File backend\<close>

lemma lookup_append:
  "lookup fs (p @ q) = (case lookup fs p of None \<Rightarrow> None | Some m \<Rightarrow> lookup m q)"
  by (induction fs p rule: lookup.induct) (auto split: option.splits)

lemma str_snoc: "str (p @ [n]) = (if p = [] then [] else str p) @ ''/'' @ n"
  by (simp add: str_def)

lemma endswith_append: "endswith ys t \<Longrightarrow> endswith (xs @ ys) t"
  by (auto simp: endswith_def)

lemma name_of_snoc: "name_of (p @ [n]) = n"
  by (simp add: name_of_def)

lemma is_dir_child:
  "lookup fs p = Some (Dir es) \<Longrightarrow> is_dir fs (p @ [n]) = (\<exists>ds. map_of es n = Some (Dir ds))"
  by (auto simp: is_dir_def lookup_append split: option.splits node.splits)

lemma is_file_child:
  "lookup fs p = Some (Dir es) \<Longrightarrow> is_file fs (p @ [n]) = (map_of es n = Some File)"
  by (auto simp: is_file_def lookup_append split: option.splits node.splits)

lemma stem_a: "stem (p @ [''a.csv'']) = ''a''"
  by (simp add: stem_def name_of_snoc)

lemma stem_b: "stem (p @ [''b.csv'']) = ''b''"
  by (simp add: stem_def name_of_snoc)

lemma endswith_csv_a: "endswith (str (p @ [''a.csv''])) ''csv''"
  unfolding str_snoc by (rule endswith_append, rule endswith_append) (simp add: endswith_def)

lemma endswith_csv_b: "endswith (str (p @ [''b.csv''])) ''csv''"
  unfolding str_snoc by (rule endswith_append, rule endswith_append) (simp add: endswith_def)

lemmas example_eval =
  example_methods_def example_client_def example_tree_def FileClient_database_def
  list_tables_files_def list_databases_dirs_or_files_def dir_or_file_entry_def
  is_dir_def is_file_def iterdir_def str_def endswith_def stem_def name_of_def
  path_truediv_def segments_def

text \<open>
  C3. \<open>FileDatabase.__getattr__\<close> tries the table first. When the table resolves, the
  lookup returns it, whatever the database resolution would give, so a name that is
  both a table and a database is the table. When the table resolution raises
  \<open>AttributeError\<close>, the lookup is the database resolution of the same name at the
  same path: its node when it resolves, and \<open>AttributeError\<close> when it raises
  \<open>AttributeError\<close> too.
\<close>

theorem getattr_table_first:
  "(\<forall>t. table_method m c fs name (db_path self) = Inr t \<longrightarrow>
        FileDatabase_getattr m c fs self name = Inr (Table t))
   \<and> (\<forall>a d. table_method m c fs name (db_path self) = Inl (AttributeError a)
          \<and> FileClient_database m c fs (Some name) (db_path self) = Inr d \<longrightarrow>
        FileDatabase_getattr m c fs self name = Inr (Database d))
   \<and> (\<forall>a b. table_method m c fs name (db_path self) = Inl (AttributeError a)
          \<and> FileClient_database m c fs (Some name) (db_path self) = Inl (AttributeError b) \<longrightarrow>
        FileDatabase_getattr m c fs self name = Inl (AttributeError b))"
  by (simp add: FileDatabase_getattr_def)

text \<open>
  Witness for C3: under \<open>/data/sub\<close> the name \<open>foo\<close> is both the file \<open>foo.csv\<close> and the
  directory \<open>foo\<close>, and the lookup gives the table; at the root \<open>sub\<close> is no table and
  resolves as a database; \<open>zz\<close> is neither and the lookup raises \<open>AttributeError\<close>.
\<close>

theorem getattr_table_first_witness:
  "FileDatabase_getattr example_methods example_client example_tree
      \<lparr>db_name = ''sub'', db_path = Some [''data'', ''sub'']\<rparr> ''foo'' = Inr (Table ''foo'')
   \<and> FileDatabase_getattr example_methods example_client example_tree
      \<lparr>db_name = ''root'', db_path = None\<rparr> ''sub''
       = Inr (Database \<lparr>db_name = ''sub'', db_path = Some [''data'', ''sub'']\<rparr>)
   \<and> FileDatabase_getattr example_methods example_client example_tree
      \<lparr>db_name = ''root'', db_path = None\<rparr> ''zz'' = Inl (AttributeError ''zz'')"
proof -
  let ?sub = "\<lparr>db_name = ''sub'', db_path = Some [''data'', ''sub'']\<rparr>"
  let ?root = "\<lparr>db_name = ''root'', db_path = None\<rparr>"
  have t1: "table_method example_methods example_client example_tree ''foo'' (db_path ?sub)
            = Inr ''foo''"
    by (simp add: example_eval)
  have t2: "table_method example_methods example_client example_tree ''sub'' (db_path ?root)
            = Inl (AttributeError ''sub'')"
    by (simp add: example_eval)
  have d2: "FileClient_database example_methods example_client example_tree (Some ''sub'') (db_path ?root)
            = Inr ?sub"
    by (simp add: example_eval)
  have t3: "table_method example_methods example_client example_tree ''zz'' (db_path ?root)
            = Inl (AttributeError ''zz'')"
    by (simp add: example_eval)
  have d3: "FileClient_database example_methods example_client example_tree (Some ''zz'') (db_path ?root)
            = Inl (AttributeError ''zz'')"
    by (simp add: example_eval)
  have "FileDatabase_getattr example_methods example_client example_tree ?sub ''foo''
        = Inr (Table ''foo'')"
    using getattr_table_first [of example_methods example_client example_tree "''foo''" ?sub] t1
    by blast
  moreover have "FileDatabase_getattr example_methods example_client example_tree ?root ''sub''
        = Inr (Database ?sub)"
    using getattr_table_first [of example_methods example_client example_tree "''sub''" ?root] t2 d2
    by blast
  moreover have "FileDatabase_getattr example_methods example_client example_tree ?root ''zz''
        = Inl (AttributeError ''zz'')"
    using getattr_table_first [of example_methods example_client example_tree "''zz''" ?root] t3 d3
    by blast
  ultimately show ?thesis by simp
qed

text \<open>In the first case of the witness the name \<open>foo\<close> resolves as a database as well.\<close>

lemma example_foo_is_database_too:
  "FileClient_database example_methods example_client example_tree (Some ''foo'')
      (Some [''data'', ''sub''])
     = Inr \<lparr>db_name = ''foo'', db_path = Some [''data'', ''sub'', ''foo.csv'']\<rparr>"
  by (simp add: example_eval)

text \<open>
  C5. \<open>FileClient.database\<close> tests \<open>self.root / name\<close>, not \<open>path / name\<close>, for being a
  directory. With the root \<open>/data\<close>, the call \<open>database('inner', path=/data/sub)\<close> finds
  \<open>inner\<close> in the listing at \<open>/data/sub\<close>, where \<open>/data/sub/inner\<close> is a directory, and
  returns a node bound to \<open>/data/sub/inner.csv\<close>.
\<close>

theorem database_nested_directory:
  "is_dir example_tree [''data'', ''sub'', ''inner'']
   \<and> list_databases_method example_methods example_client example_tree (Some [''data'', ''sub''])
       = Inr [''foo'', ''foo'', ''inner'']
   \<and> FileClient_database example_methods example_client example_tree (Some ''inner'') (Some [''data'', ''sub''])
       = Inr \<lparr>db_name = ''inner'', db_path = Some [''data'', ''sub'', ''inner.csv'']\<rparr>"
  by (simp add: example_eval)

text \<open>
  What holds of \<open>FileClient.database\<close> at every path: without a name it returns the
  root node; a name outside the listing raises \<open>AttributeError\<close>; a listed name gives a
  node of that name.
\<close>

lemma database_no_name:
  "FileClient_database m c fs None path = Inr \<lparr>db_name = ''root'', db_path = path\<rparr>"
  by (simp add: FileClient_database_def)

lemma database_not_listed:
  "list_databases_method m c fs path = Inr dbs \<Longrightarrow> name \<notin> set dbs \<Longrightarrow>
     FileClient_database m c fs (Some name) path = Inl (AttributeError name)"
  by (simp add: FileClient_database_def)

lemma database_listed:
  "list_databases_method m c fs path = Inr dbs \<Longrightarrow> name \<in> set dbs \<Longrightarrow>
     \<exists>p. FileClient_database m c fs (Some name) path = Inr \<lparr>db_name = name, db_path = Some p\<rparr>"
  by (simp add: FileClient_database_def Let_def)

text \<open>
  At the root (\<open>path\<close> absent) the directory test and the listing read the same
  directory: a listed name is bound to \<open>root/name\<close> when that is a directory, and
  otherwise to \<open>root/name.extension\<close>, unless the text of the root already ends with
  \<open>name.extension\<close>, in which case the root is kept.
\<close>

lemma database_at_root:
  "list_databases_method m c fs None = Inr dbs \<Longrightarrow> name \<in> set dbs \<Longrightarrow>
     FileClient_database m c fs (Some name) None
       = Inr \<lparr>db_name = name,
              db_path = Some (if is_dir fs (path_truediv (root c) name)
                              then path_truediv (root c) name
                              else if endswith (str (root c)) (name @ ''.'' @ extension c)
                              then root c
                              else path_truediv (root c) (name @ ''.'' @ extension c))\<rparr>"
  by (simp add: FileClient_database_def Let_def)

text \<open>
  C6 as stated fails: in the directory \<open>/data\<close> with the files \<open>a.csv\<close> and \<open>b.csv\<close> and
  the directory \<open>sub\<close>, the databases listed by \<open>_list_databases_dirs_or_files\<close> are not
  only \<open>sub\<close>.
\<close>

theorem walker_databases_counterexample:
  "\<not> (set (list_databases_dirs_or_files example_client example_tree None) = {''sub''}
      \<and> set (list_tables_files example_client example_tree None) = {''a'', ''b''})"
  by (simp add: example_eval)

text \<open>
  C6, amended. For a root directory that holds exactly the files \<open>a.csv\<close> and \<open>b.csv\<close>
  and the directory \<open>sub\<close>, in any order, and the extension \<open>csv\<close>,
  \<open>_list_databases_dirs_or_files\<close> lists the databases \<open>sub\<close>, \<open>a\<close> and \<open>b\<close> (a file with
  the extension is a database under its stem), and \<open>_list_tables_files\<close> lists the
  tables \<open>a\<close> and \<open>b\<close>.
\<close>

theorem walker_lists_files_as_databases:
  assumes look: "lookup fs (root c) = Some (Dir es)"
    and ext: "extension c = ''csv''"
    and dist: "distinct (map fst es)"
    and ents: "set es = {(''a.csv'', File), (''b.csv'', File), (''sub'', Dir sub)}"
  shows "set (list_databases_dirs_or_files c fs None) = {''sub'', ''a'', ''b''}
       \<and> set (list_tables_files c fs None) = {''a'', ''b''}"
proof -
  have dir: "is_dir fs (root c)"
    using look by (simp add: is_dir_def)
  have mo: "\<And>n v. (map_of es n = Some v) = ((n, v) \<in> set es)"
    using dist by simp
  have names: "fst ` set es = {''a.csv'', ''b.csv'', ''sub''}"
    using ents by simp
  have d: "\<And>n. is_dir fs (root c @ [n]) = (n = ''sub'')"
    using look ents by (auto simp: is_dir_child mo)
  have f: "\<And>n. is_file fs (root c @ [n]) = (n = ''a.csv'' \<or> n = ''b.csv'')"
    using look ents by (auto simp: is_file_child mo)
  have it: "iterdir fs (root c) = map (\<lambda>e. root c @ [fst e]) es"
    using look by (simp add: iterdir_def)
  have dbs: "set (list_databases_dirs_or_files c fs None)
             = (\<Union>n \<in> fst ` set es. set (dir_or_file_entry c fs (root c @ [n])))"
    using dir by (auto simp: list_databases_dirs_or_files_def it)
  have tbs: "set (list_tables_files c fs None)
             = (\<lambda>n. stem (root c @ [n])) `
                 {n \<in> fst ` set es. is_file fs (root c @ [n])
                   \<and> endswith (str (root c @ [n])) ''csv''}"
    using dir by (auto simp: list_tables_files_def it ext)
  have sel: "{n \<in> fst ` set es. is_file fs (root c @ [n])
                   \<and> endswith (str (root c @ [n])) ''csv''} = {''a.csv'', ''b.csv''}"
    unfolding names using endswith_csv_a endswith_csv_b by (auto simp: f)
  have "set (list_databases_dirs_or_files c fs None) = {''sub'', ''a'', ''b''}"
    unfolding dbs names
    by (auto simp: dir_or_file_entry_def d f ext endswith_csv_a endswith_csv_b stem_a stem_b name_of_snoc)
  moreover have "set (list_tables_files c fs None) = {''a'', ''b''}"
    unfolding tbs sel by (simp add: stem_a stem_b)
  ultimately show ?thesis by simp
qed

lemma example_root_entries:
  "lookup example_tree (root example_client)
     = Some (Dir [(''a.csv'', File), (''b.csv'', File),
                  (''sub'', Dir [(''foo.csv'', File), (''foo'', Dir []), (''inner'', Dir [])])])"
  by (simp add: example_tree_def example_client_def)

text \<open>Witness for C6, amended: the example tree, listed at its root.\<close>

theorem walker_lists_files_as_databases_witness:
  "set (list_databases_dirs_or_files example_client example_tree None) = {''sub'', ''a'', ''b''}
   \<and> set (list_tables_files example_client example_tree None) = {''a'', ''b''}"
  using walker_lists_files_as_databases [OF example_root_entries]
  by (simp add: example_client_def)

text \<open>In the directories-only mode, \<open>_list_databases_dirs\<close>, the same root lists \<open>sub\<close> alone.\<close>

lemma example_dirs_only:
  "list_databases_dirs example_client example_tree None = [''sub'']"
  by (simp add: list_databases_dirs_def example_eval)

subsection \<open>Qualified names\<close>

lemma rfind_None: "(rfind c s = None) = (c \<notin> set s)"
  by (induction s) (auto split: option.splits)

lemma rfind_last: "c \<notin> set ys \<Longrightarrow> rfind c (xs @ c # ys) = Some (length xs)"
  by (induction xs) (auto simp: rfind_None split: option.splits)

lemma first_line_id: "CHR 0x0A \<notin> set s \<Longrightarrow> first_line s = s"
  by (auto simp: first_line_def takeWhile_eq_all_conv)

lemma match_None: "(fully_qualified_re_match s = None) = (CHR ''.'' \<notin> set (first_line s))"
proof (cases "rfind CHR ''.'' (first_line s)")
  case None
  then show ?thesis
    by (simp add: fully_qualified_re_match_def rfind_None [symmetric])
next
  case (Some i)
  then have "CHR ''.'' \<in> set (first_line s)"
    using rfind_None [of "CHR ''.''" "first_line s"] by simp
  with Some show ?thesis
    by (simp add: fully_qualified_re_match_def Let_def split: list.splits option.splits)
qed

lemma first_line_subset: "c \<in> set (first_line s) \<Longrightarrow> c \<in> set s"
  unfolding first_line_def by (rule set_takeWhileD [THEN conjunct1])

lemma first_line_Cons:
  "first_line (x # xs) = (if x = CHR 0x0A then [] else x # first_line xs)"
  by (simp add: first_line_def)

lemma search_iff: "fully_qualified_re_search s = (CHR ''.'' \<in> set s)"
proof (induction s)
  case Nil
  show ?case by (simp add: match_None first_line_def)
next
  case (Cons x xs)
  show ?case
    using Cons first_line_subset [of "CHR ''.''" xs]
    by (auto simp: match_None first_line_Cons)
qed

lemma is_fully_qualified_iff: "is_fully_qualified s = (CHR ''.'' \<in> set s)"
  by (simp add: is_fully_qualified_def search_iff)

lemma qualifier_fixes_qualified:
  "is_fully_qualified q \<Longrightarrow> fully_qualified_name q database = q"
  by (simp add: fully_qualified_name_def)

lemma match_qualified:
  assumes n: "CHR ''.'' \<notin> set n" "n \<noteq> []" "CHR 0x0A \<notin> set n" and d: "CHR 0x0A \<notin> set d"
  shows "fully_qualified_re_match (d @ ''.'' @ [CHR 0x60] @ n @ [CHR 0x60]) = Some (d, Some n, None)"
proof -
  let ?s = "d @ ''.'' @ [CHR 0x60] @ n @ [CHR 0x60]"
  have fl: "first_line ?s = ?s"
    using n d by (simp add: first_line_id)
  have dot: "rfind CHR ''.'' ?s = Some (length d)"
    using rfind_last [of "CHR ''.''" "[CHR 0x60] @ n @ [CHR 0x60]" d] n by simp
  have tick: "rfind CHR 0x60 (n @ [CHR 0x60]) = Some (length n)"
    using rfind_last [of "CHR 0x60" "[]" n] by simp
  show ?thesis
    unfolding fully_qualified_re_match_def fl Let_def dot
    by (simp add: tick)
qed

text \<open>
  C4, amended. For a table name \<open>n\<close> that is not fully qualified and a database \<open>d\<close>,
  both non-empty and free of line feeds, \<open>_match_name\<close> on the name that
  \<open>_fully_qualified_name\<close> builds from them gives back \<open>d\<close> and \<open>n\<close>; and
  \<open>_fully_qualified_name\<close> returns every fully-qualified name as it is, so applying it
  again to its own result changes nothing.
\<close>

theorem qualified_name_round_trip:
  assumes "\<not> is_fully_qualified n" and "n \<noteq> []" and "d \<noteq> []"
    and "CHR 0x0A \<notin> set n" and "CHR 0x0A \<notin> set d"
  shows "match_name (fully_qualified_name n (Some d)) = (Some d, Some n)
       \<and> (\<forall>q database. is_fully_qualified q \<longrightarrow> fully_qualified_name q database = q)
       \<and> (\<forall>database. fully_qualified_name (fully_qualified_name n (Some d)) database
            = fully_qualified_name n (Some d))"
proof -
  have nodot: "CHR ''.'' \<notin> set n"
    using assms(1) by (simp add: is_fully_qualified_iff)
  have q: "fully_qualified_name n (Some d) = d @ ''.'' @ [CHR 0x60] @ n @ [CHR 0x60]"
    using assms(1,3) by (simp add: fully_qualified_name_def truthy_def)
  have m: "match_name (fully_qualified_name n (Some d)) = (Some d, Some n)"
    unfolding q match_name_def
    using match_qualified [OF nodot assms(2) assms(4) assms(5)] assms(2)
    by (simp add: py_or_def truthy_def)
  have fq: "is_fully_qualified (fully_qualified_name n (Some d))"
    unfolding q by (simp add: is_fully_qualified_iff)
  show ?thesis
    using m fq by (simp add: qualifier_fixes_qualified)
qed

text \<open>Witness for C4, amended: the table \<open>tbl\<close> in the database \<open>db\<close>.\<close>

theorem qualified_name_round_trip_witness:
  "match_name (fully_qualified_name ''tbl'' (Some ''db'')) = (Some ''db'', Some ''tbl'')
   \<and> fully_qualified_name ''db.`tbl`'' None = ''db.`tbl`''
   \<and> fully_qualified_name (fully_qualified_name ''tbl'' (Some ''db'')) (Some ''other'')
        = fully_qualified_name ''tbl'' (Some ''db'')"
proof -
  have a: "\<not> is_fully_qualified ''tbl''" by (simp add: is_fully_qualified_iff)
  have b: "is_fully_qualified ''db.`tbl`''" by (simp add: is_fully_qualified_iff)
  have "''tbl'' \<noteq> []" and "''db'' \<noteq> []" and "CHR 0x0A \<notin> set ''tbl''" and "CHR 0x0A \<notin> set ''db''"
    by simp_all
  from qualified_name_round_trip [OF a this] b show ?thesis by blast
qed

text \<open>
  C4 as stated fails. The empty name is not fully qualified; qualified with \<open>db\<close> it
  is parsed back as the database \<open>db\<close> and no table name, because the empty quoted
  group is false in \<open>quoted or unquoted\<close>. A name with a line feed is cut at the
  line feed, and a database with a line feed makes the match fail.
\<close>

theorem qualified_name_round_trip_counterexample:
  "\<not> is_fully_qualified [] \<and> ''db'' \<noteq> []
   \<and> match_name (fully_qualified_name [] (Some ''db'')) = (Some ''db'', None)
   \<and> \<not> is_fully_qualified [CHR ''a'', CHR 0x0A, CHR ''b'']
   \<and> match_name (fully_qualified_name [CHR ''a'', CHR 0x0A, CHR ''b''] (Some ''db''))
       = (Some ''db'', Some [CHR 0x60, CHR ''a''])
   \<and> \<not> is_fully_qualified ''t'' \<and> [CHR ''a'', CHR 0x0A, CHR ''b''] \<noteq> []
   \<and> match_name (fully_qualified_name ''t'' (Some [CHR ''a'', CHR 0x0A, CHR ''b'']))
       = (None, Some ([CHR ''a'', CHR 0x0A, CHR ''b''] @ ''.`t`''))"
  by (simp add: is_fully_qualified_iff fully_qualified_name_def truthy_def match_name_def
      fully_qualified_re_match_def first_line_def py_or_def)

subsection \<open>Catalog listings\<close>

lemma filter_like_compiled:
  "rx like = Some M \<Longrightarrow> filter_like rx like ns = Inr (filter M ns)"
  by (induction ns) (simp_all add: re_match_def)

lemma filter_like_rejected:
  "rx like = None \<Longrightarrow> ns \<noteq> [] \<Longrightarrow> filter_like rx like ns = Inl ReError"
  by (cases ns) (simp_all add: re_match_def)

lemma rx_plain_foo: "rx_plain ''foo'' = Some (match_plain ''foo'')"
  by (simp add: rx_plain_def plain_char_def)

lemma rx_plain_foo_dot: "rx_plain ''foo.'' = Some (match_plain ''foo.'')"
  by (simp add: rx_plain_def plain_char_def)

lemma rx_plain_bar: "rx_plain ''bar'' = Some (match_plain ''bar'')"
  by (simp add: rx_plain_def plain_char_def)

lemma rx_plain_empty: "rx_plain [] = Some (match_plain [])"
  by (simp add: rx_plain_def)

lemma example_listTables: "listTables example_catalog None = Inr example_tables"
  by (simp add: example_catalog_def)

lemma example_listDatabases: "listDatabases example_catalog = Inr example_databases"
  by (simp add: example_catalog_def)

text \<open>
  C8. When the catalog answers \<open>listTables\<close> with the entries \<open>ts\<close>: for a non-empty
  pattern \<open>like\<close> that the library accepts, \<open>list_tables\<close> returns the names of \<open>ts\<close> that
  \<open>re.match\<close> matches against \<open>like\<close> (a match anchored at the start of the name), in
  the order of the listing; with \<open>like\<close> absent (or empty) it returns all the names.
\<close>

theorem list_tables_filters_by_match:
  assumes "listTables cat database = Inr ts"
  shows "(\<forall>p M. like = Some p \<and> p \<noteq> [] \<and> rx p = Some M \<longrightarrow>
            list_tables rx cat like database = Inr (filter M (map table_name ts)))
       \<and> (like = None \<or> like = Some [] \<longrightarrow>
            list_tables rx cat like database = Inr (map table_name ts))"
  using assms by (auto simp: list_tables_def truthy_def filter_like_compiled)

text \<open>
  Witness for C8: the pattern \<open>foo\<close> keeps \<open>foo_a\<close> and \<open>foo\<close> and drops \<open>bar\<close> and
  \<open>a_foo\<close>, where \<open>foo\<close> occurs but not at the start.
\<close>

theorem list_tables_filters_by_match_witness:
  "list_tables rx_plain example_catalog (Some ''foo'') None = Inr [''foo_a'', ''foo'']
   \<and> list_tables rx_plain example_catalog None None = Inr [''foo_a'', ''bar'', ''a_foo'', ''foo'']"
proof -
  have "list_tables rx_plain example_catalog (Some ''foo'') None = Inr [''foo_a'', ''foo'']"
    using list_tables_filters_by_match
            [where cat = example_catalog and like = "Some ''foo''" and rx = rx_plain,
             OF example_listTables]
          rx_plain_foo
    by (simp add: example_tables_def)
  moreover have "list_tables rx_plain example_catalog None None
                 = Inr [''foo_a'', ''bar'', ''a_foo'', ''foo'']"
    using list_tables_filters_by_match
            [where cat = example_catalog and like = None and rx = rx_plain,
             OF example_listTables]
    by (simp add: example_tables_def)
  ultimately show ?thesis by simp
qed

text \<open>
  C9. When the catalog answers \<open>listDatabases\<close> with the entries \<open>ds\<close> and the library
  accepts \<open>name\<close> as a pattern (the empty pattern matching every name),
  \<open>exists_database(name)\<close> is true exactly when \<open>re.match\<close> matches \<open>name\<close> against the
  name of some database of \<open>ds\<close>. It is no test of equality: with the databases
  \<open>default\<close> and \<open>foobar\<close>, \<open>exists_database('foo.')\<close> is true although no database is
  named \<open>foo.\<close>.
\<close>

theorem exists_database_matches_pattern:
  assumes "listDatabases cat = Inr ds"
    and "rx name = Some M"
    and "name = [] \<longrightarrow> (\<forall>d \<in> set ds. M (database_name d))"
  shows "exists_database rx cat name = Inr (\<exists>d \<in> set ds. M (database_name d))
       \<and> exists_database rx_plain example_catalog ''foo.'' = Inr True
       \<and> ''foo.'' \<notin> set (map database_name example_databases)"
proof -
  have "exists_database rx cat name = Inr (\<exists>d \<in> set ds. M (database_name d))"
  proof (cases "name = []")
    case True
    with assms show ?thesis
      by (cases ds) (auto simp: exists_database_def list_databases_def truthy_def)
  next
    case False
    with assms show ?thesis
      by (auto simp: exists_database_def list_databases_def truthy_def filter_like_compiled
            filter_empty_conv)
  qed
  moreover have "exists_database rx_plain example_catalog ''foo.'' = Inr True"
    by (simp add: exists_database_def list_databases_def truthy_def example_catalog_def
         example_databases_def re_match_def rx_plain_def plain_char_def)
  moreover have "''foo.'' \<notin> set (map database_name example_databases)"
    by (simp add: example_databases_def)
  ultimately show ?thesis by simp
qed

text \<open>
  Witness for C9: \<open>foo.\<close> matches the start of \<open>foobar\<close>, \<open>bar\<close> matches the start of no
  database name, and the empty name finds the listing non-empty.
\<close>

theorem exists_database_matches_pattern_witness:
  "exists_database rx_plain example_catalog ''foo.'' = Inr True
   \<and> exists_database rx_plain example_catalog ''bar'' = Inr False
   \<and> exists_database rx_plain example_catalog [] = Inr True"
proof -
  have "exists_database rx_plain example_catalog ''foo.'' = Inr True"
    using exists_database_matches_pattern
            [where cat = example_catalog and rx = rx_plain and name = "''foo.''",
             OF example_listDatabases rx_plain_foo_dot]
    by (simp add: example_databases_def)
  moreover have "exists_database rx_plain example_catalog ''bar'' = Inr False"
    using exists_database_matches_pattern
            [where cat = example_catalog and rx = rx_plain and name = "''bar''",
             OF example_listDatabases rx_plain_bar]
    by (simp add: example_databases_def)
  moreover have "exists_database rx_plain example_catalog [] = Inr True"
    using exists_database_matches_pattern
            [where cat = example_catalog and rx = rx_plain and name = "[]",
             OF example_listDatabases rx_plain_empty]
    by (auto simp: example_databases_def)
  ultimately show ?thesis by simp
qed

subsection \<open>Binary operations of the pandas backend\<close>

text \<open>
  C10. \<open>tr\<close> reads an operand as a truth value. Where \<open>|\<close> and \<open>&\<close> are disjunction
  and conjunction on the truth of their operands, the function that \<open>BINARY_OPERATIONS\<close>
  holds for \<open>IdenticalTo\<close> is true of \<open>x\<close> and \<open>y\<close> exactly when \<open>x == y\<close> is true or
  \<open>pd.isnull\<close> is true of both; the function held for \<open>Equals\<close> is \<open>operator.eq\<close>
  itself.
\<close>

theorem identical_to_is_null_safe_equality:
  assumes "\<forall>a b. tr (operator_or P a b) = (tr a \<or> tr b)"
    and "\<forall>a b. tr (operator_and P a b) = (tr a \<and> tr b)"
  shows "(\<exists>f. map_of (BINARY_OPERATIONS P) IdenticalTo = Some f
            \<and> (\<forall>x y. tr (f x y)
                  = (tr (operator_eq P x y) \<or> (tr (pd_isnull P x) \<and> tr (pd_isnull P y)))))
       \<and> map_of (BINARY_OPERATIONS P) Equals = Some (operator_eq P)"
  using assms by (simp add: BINARY_OPERATIONS_def)

lemma scalar_or: "\<forall>a b. truth (operator_or scalar_operator a b) = (truth a \<or> truth b)"
  by (simp add: scalar_operator_def logical_def truth_def)

lemma scalar_and: "\<forall>a b. truth (operator_and scalar_operator a b) = (truth a \<and> truth b)"
  by (simp add: scalar_operator_def logical_def truth_def)

text \<open>
  Witness for C10: on the example operands, two missing values are identical but
  not equal, equal numbers are identical, and a number is identical neither to the
  missing value nor to another number.
\<close>

theorem identical_to_is_null_safe_equality_witness:
  "\<exists>f. map_of (BINARY_OPERATIONS scalar_operator) IdenticalTo = Some f
       \<and> truth (f NaN NaN) \<and> truth (f (Num 7) (Num 7))
       \<and> \<not> truth (f (Num 7) NaN) \<and> \<not> truth (f (Num 7) (Num 8))
       \<and> map_of (BINARY_OPERATIONS scalar_operator) Equals = Some (operator_eq scalar_operator)
       \<and> \<not> truth (operator_eq scalar_operator NaN NaN)"
proof -
  from identical_to_is_null_safe_equality [OF scalar_or scalar_and]
  obtain f where f: "map_of (BINARY_OPERATIONS scalar_operator) IdenticalTo = Some f"
    and iff: "\<forall>x y. truth (f x y)
                = (truth (operator_eq scalar_operator x y)
                   \<or> (truth (pd_isnull scalar_operator x) \<and> truth (pd_isnull scalar_operator y)))"
    and e: "map_of (BINARY_OPERATIONS scalar_operator) Equals = Some (operator_eq scalar_operator)"
    by blast
  have "truth (f NaN NaN)" and "truth (f (Num 7) (Num 7))"
    and "\<not> truth (f (Num 7) NaN)" and "\<not> truth (f (Num 7) (Num 8))"
    and "\<not> truth (operator_eq scalar_operator NaN NaN)"
    unfolding iff [rule_format]
    by (simp_all add: scalar_operator_def compare_def truth_def)
  with f e show ?thesis by blast
qed

subsection \<open>\<open>create_table\<close>, \<open>insert\<close> and \<open>execute\<close>\<close>

lemma and_then_raise: "and_then ([], Inl e) f = ([], Inl e)"
  by (simp add: and_then_def)

text \<open>
  \<open>create_table\<close> with neither \<open>obj\<close> nor \<open>schema\<close> raises before any native call.
  With an \<open>obj\<close>, the schema is not looked at and a native call is issued.
\<close>

lemma create_table_neither:
  "create_table env name None None database force format
     = ([], Inl (IbisError ''Must pass expr or schema''))"
  by (simp add: create_table_def raise_def)

lemma create_table_ignores_schema:
  "create_table env name (Some ob) (Some sc) database force format
     = create_table env name (Some ob) None database force format"
  by (simp add: create_table_def)

lemma create_table_obj_first_call:
  "fst (create_table env name (Some ob) schema database force format) \<noteq> []"
  by (cases ob) (simp_all add: create_table_def and_then_def call_def split: sum.splits)

text \<open>
  C1. \<open>create_table\<close> with both an expression and a schema does not fail: it takes
  the branch of \<open>obj\<close>, compiles the expression, builds the \<open>CTAS\<close> statement and
  submits it, and the schema is dropped.
\<close>

theorem create_table_both_supplied:
  "create_table example_session ''t'' (Some (Expression ''src'')) (Some [(''a'', ''int64'')])
       None False ''parquet''
     = ([ToAst ''src'',
         Compile (CTAS ''t'' ''SELECT * FROM src'' None False ''parquet''),
         Sql ''CREATE TABLE t AS SELECT * FROM src''],
        Inr (Some ''result of CREATE TABLE t AS SELECT * FROM src''))"
  by (simp add: create_table_def example_session_def example_compile_statement_def
      and_then_def call_def ret_def raw_sql_def)

text \<open>
  The loop of \<open>_validate_compatible\<close>: over names present in both schemas it raises
  at the first column that does not cast, and passes when every column casts.
\<close>

lemma validate_columns_fails:
  assumes "\<forall>n \<in> set ns. map_of src n \<noteq> None \<and> map_of dst n \<noteq> None"
    and "\<exists>n \<in> set ns. \<exists>lt rt. map_of src n = Some lt \<and> map_of dst n = Some rt
            \<and> \<not> castable ty lt rt"
  shows "\<exists>n lt rt. n \<in> set ns \<and> map_of src n = Some lt \<and> map_of dst n = Some rt
            \<and> \<not> castable ty lt rt
            \<and> validate_columns ty src dst ns
                = Inl (IbisInputError (''Cannot safely cast '' @ repr ty lt @ '' to '' @ repr ty rt))"
  using assms
proof (induction ns)
  case Nil
  then show ?case by simp
next
  case (Cons n ns)
  from Cons.prems(1) obtain lt rt where l: "map_of src n = Some lt" and r: "map_of dst n = Some rt"
    by auto
  show ?case
  proof (cases "castable ty lt rt")
    case False
    with l r show ?thesis
      by (intro exI [of _ n] exI [of _ lt] exI [of _ rt]) (simp add: getitem_def)
  next
    case True
    with Cons.prems(2) l r
    have "\<exists>n \<in> set ns. \<exists>lt rt. map_of src n = Some lt \<and> map_of dst n = Some rt
            \<and> \<not> castable ty lt rt"
      by auto
    with Cons.IH Cons.prems(1)
    obtain m lt' rt' where "m \<in> set ns" "map_of src m = Some lt'" "map_of dst m = Some rt'"
      "\<not> castable ty lt' rt'"
      "validate_columns ty src dst ns
         = Inl (IbisInputError (''Cannot safely cast '' @ repr ty lt' @ '' to '' @ repr ty rt'))"
      by auto
    with True l r show ?thesis
      by (intro exI [of _ m] exI [of _ lt'] exI [of _ rt']) (simp add: getitem_def)
  qed
qed

lemma validate_columns_passes:
  "\<forall>n \<in> set ns. \<exists>lt rt. map_of src n = Some lt \<and> map_of dst n = Some rt \<and> castable ty lt rt
     \<Longrightarrow> validate_columns ty src dst ns = Inr ()"
  by (induction ns) (auto simp: getitem_def)

lemma insert_expression:
  "PySparkTable_insert env ty self (Expression expr) overwrite (None :: 'w option) True
     = (if snd expr = handle_schema self then
          PySparkTable_insert env ty self (Expression expr) overwrite (None :: 'w option) False
        else and_then ([], validate_compatible ty (snd expr) (handle_schema self))
               (\<lambda>u. PySparkTable_insert env ty self (Expression expr) overwrite (None :: 'w option) False))"
  by (simp add: PySparkTable_insert_def Let_def ret_def and_then_def)

text \<open>
  C2. An insert of a table expression (\<open>values\<close> left at \<open>None\<close>) with \<open>validate\<close> true,
  whose schema is not equal to the schema of the table: when the sets of column
  names differ, the insert raises the input error \<open>Schemas have different names\<close>;
  when they agree and some column of the source does not cast to the type of the
  same column of the table, it raises the input error \<open>Cannot safely cast ... to ...\<close>
  on the two types of such a column. In both cases the log of native calls is
  empty: nothing is compiled and no statement is submitted.
\<close>

theorem insert_validates_before_submitting:
  assumes "snd expr \<noteq> handle_schema self"
  shows "(set (names (snd expr)) \<noteq> set (names (handle_schema self)) \<longrightarrow>
            PySparkTable_insert env ty self (Expression expr) overwrite (None :: 'w option) True
              = ([], Inl (IbisInputError ''Schemas have different names'')))
       \<and> (set (names (snd expr)) = set (names (handle_schema self))
            \<and> (\<exists>n lt rt. map_of (snd expr) n = Some lt \<and> map_of (handle_schema self) n = Some rt
                   \<and> \<not> castable ty lt rt) \<longrightarrow>
            (\<exists>n lt rt. map_of (snd expr) n = Some lt \<and> map_of (handle_schema self) n = Some rt
                   \<and> \<not> castable ty lt rt
                   \<and> PySparkTable_insert env ty self (Expression expr) overwrite (None :: 'w option) True
                       = ([], Inl (IbisInputError
                                (''Cannot safely cast '' @ repr ty lt @ '' to '' @ repr ty rt)))))"
proof (intro conjI impI)
  assume "set (names (snd expr)) \<noteq> set (names (handle_schema self))"
  with assms show "PySparkTable_insert env ty self (Expression expr) overwrite (None :: 'w option) True
              = ([], Inl (IbisInputError ''Schemas have different names''))"
    by (simp add: insert_expression validate_compatible_def and_then_raise)
next
  let ?src = "snd expr" and ?dst = "handle_schema self"
  assume h: "set (names ?src) = set (names ?dst)
            \<and> (\<exists>n lt rt. map_of ?src n = Some lt \<and> map_of ?dst n = Some rt \<and> \<not> castable ty lt rt)"
  then have same: "set (names ?src) = set (names ?dst)" by simp
  have total: "\<forall>n \<in> set (names ?src). map_of ?src n \<noteq> None \<and> map_of ?dst n \<noteq> None"
    using same by (auto simp: names_def map_of_eq_None_iff)
  from h obtain n lt rt where n: "map_of ?src n = Some lt" "map_of ?dst n = Some rt"
      "\<not> castable ty lt rt"
    by blast
  from n(1) have "n \<in> set (names ?src)"
    by (auto simp: names_def dest: map_of_SomeD intro: rev_image_eqI)
  with n have "\<exists>n \<in> set (names ?src). \<exists>lt rt. map_of ?src n = Some lt \<and> map_of ?dst n = Some rt
            \<and> \<not> castable ty lt rt"
    by blast
  from validate_columns_fails [OF total this]
  obtain m lt' rt' where m: "map_of ?src m = Some lt'" "map_of ?dst m = Some rt'"
      "\<not> castable ty lt' rt'"
      "validate_columns ty ?src ?dst (names ?src)
         = Inl (IbisInputError (''Cannot safely cast '' @ repr ty lt' @ '' to '' @ repr ty rt'))"
    by blast
  have "PySparkTable_insert env ty self (Expression expr) overwrite (None :: 'w option) True
          = ([], Inl (IbisInputError (''Cannot safely cast '' @ repr ty lt' @ '' to '' @ repr ty rt')))"
    using assms same m(4)
    by (simp add: insert_expression validate_compatible_def and_then_raise)
  with m(1-3) show "\<exists>n lt rt. map_of ?src n = Some lt \<and> map_of ?dst n = Some rt
                   \<and> \<not> castable ty lt rt
                   \<and> PySparkTable_insert env ty self (Expression expr) overwrite (None :: 'w option) True
                       = ([], Inl (IbisInputError
                                (''Cannot safely cast '' @ repr ty lt @ '' to '' @ repr ty rt)))"
    by blast
qed


text \<open>
  Witness for C2: into the table of columns \<open>a: string, b: string\<close>, the source
  \<open>a: int32, b: string\<close> fails on the cast of \<open>a\<close>, and the source of the single column
  \<open>a\<close> fails on the names.
\<close>

theorem insert_validates_before_submitting_witness:
  "PySparkTable_insert example_session example_types example_handle
       (Expression (''src'', [(''a'', ''int32''), (''b'', ''string'')])) False (None :: unit option) True
     = ([], Inl (IbisInputError ''Cannot safely cast int32 to string''))
   \<and> PySparkTable_insert example_session example_types example_handle
       (Expression (''src'', [(''a'', ''int32'')])) False (None :: unit option) True
     = ([], Inl (IbisInputError ''Schemas have different names''))"
proof -
  let ?e1 = "(''src'', [(''a'', ''int32''), (''b'', ''string'')])"
  let ?e2 = "(''src'', [(''a'', ''int32'')])"
  have ne1: "snd ?e1 \<noteq> handle_schema example_handle"
    and ne2: "snd ?e2 \<noteq> handle_schema example_handle"
    by (simp_all add: example_handle_def)
  have same: "set (names (snd ?e1)) = set (names (handle_schema example_handle))"
    by (simp add: names_def example_handle_def)
  have bad: "map_of (snd ?e1) ''a'' = Some ''int32''
             \<and> map_of (handle_schema example_handle) ''a'' = Some ''string''
             \<and> \<not> castable example_types ''int32'' ''string''"
    by (simp add: example_handle_def example_types_def)
  from insert_validates_before_submitting
         [where expr = ?e1 and self = example_handle and ty = example_types
            and env = example_session and overwrite = False, OF ne1]
       same bad
  obtain n lt rt where n: "map_of (snd ?e1) n = Some lt"
      "map_of (handle_schema example_handle) n = Some rt"
      "\<not> castable example_types lt rt"
    and r: "PySparkTable_insert example_session example_types example_handle
              (Expression ?e1) False (None :: unit option) True
            = ([], Inl (IbisInputError
                  (''Cannot safely cast '' @ repr example_types lt @ '' to '' @ repr example_types rt)))"
    by blast
  from n have "lt = ''int32'' \<and> rt = ''string''"
    by (auto simp: example_handle_def example_types_def split: if_splits)
  with r have 1: "PySparkTable_insert example_session example_types example_handle
              (Expression ?e1) False (None :: unit option) True
            = ([], Inl (IbisInputError ''Cannot safely cast int32 to string''))"
    by (simp add: example_types_def)
  have diff: "set (names (snd ?e2)) \<noteq> set (names (handle_schema example_handle))"
    by (simp add: names_def example_handle_def)
  from insert_validates_before_submitting
         [where expr = ?e2 and self = example_handle and ty = example_types
            and env = example_session and overwrite = False, OF ne2]
       diff
  have 2: "PySparkTable_insert example_session example_types example_handle
              (Expression ?e2) False (None :: unit option) True
            = ([], Inl (IbisInputError ''Schemas have different names''))"
    by blast
  from 1 2 show ?thesis by simp
qed

text \<open>
  Around C2: an insert that passes \<open>values\<close> raises \<open>NotImplementedError\<close> before
  anything else; when the names agree and every column casts, the validated insert
  goes on as the unvalidated one does, as for a source \<open>a: int32, b: string\<close> into
  a table \<open>a: int64, b: string\<close>.
\<close>

lemma insert_values_not_implemented:
  "PySparkTable_insert env ty self (Expression expr) overwrite (Some v) validate
     = ([], Inl NotImplementedError)"
  by (simp add: PySparkTable_insert_def raise_def)

lemma insert_compatible_proceeds:
  assumes "set (names (snd expr)) = set (names (handle_schema self))"
    and "\<forall>n \<in> set (names (snd expr)). \<exists>lt rt. map_of (snd expr) n = Some lt
            \<and> map_of (handle_schema self) n = Some rt \<and> castable ty lt rt"
  shows "PySparkTable_insert env ty self (Expression expr) overwrite (None :: 'w option) True
       = PySparkTable_insert env ty self (Expression expr) overwrite (None :: 'w option) False"
  using assms validate_columns_passes [of "names (snd expr)" "snd expr" "handle_schema self" ty]
  by (simp add: insert_expression validate_compatible_def and_then_def)

lemma example_insert_compatible:
  "PySparkTable_insert example_session example_types
       (example_handle \<lparr>handle_schema := [(''a'', ''int64''), (''b'', ''string'')]\<rparr>)
       (Expression (''src'', [(''a'', ''int32''), (''b'', ''string'')])) False (None :: unit option) True
     = ([ToAst ''src'', Compile (InsertSelect ''db.`t`'' ''SELECT * FROM src'' False),
         Sql ''INSERT INTO db.`t` SELECT * FROM src''],
        Inr (Some ''result of INSERT INTO db.`t` SELECT * FROM src''))"
  by (simp add: PySparkTable_insert_def example_session_def example_types_def example_handle_def
      example_compile_statement_def validate_compatible_def names_def getitem_def
      and_then_def call_def ret_def raw_sql_def)

text \<open>
  C7. \<open>execute\<close> on an expression that is neither a table, a column nor a scalar
  expression raises \<open>IbisError\<close> with the message \<open>Cannot execute expression of type\<close>
  and the type. A table expression is compiled and converted to pandas. A column
  expression is named \<open>tmp\<close>, projected, compiled and converted, and the column \<open>tmp\<close>
  is taken. A scalar expression is compiled; a compiled frame is converted as it
  is, a bare compiled column is first selected from the one-row range; the cell at
  row 0, column 0 is taken.
\<close>

theorem execute_dispatches_on_shape:
  "((\<forall>e. expr \<noteq> TableExpr e) \<and> (\<forall>e. expr \<noteq> ColumnExpr e) \<and> (\<forall>e. expr \<noteq> ScalarExpr e) \<longrightarrow>
      (\<exists>ty. execute g expr timecontext params
              = Inl (IbisError (''Cannot execute expression of type: '' @ ty))))
   \<and> (\<forall>e compiled df. expr = TableExpr e
          \<and> compile g expr timecontext params = Inr compiled \<and> toPandas g compiled = Inr df \<longrightarrow>
        execute g expr timecontext params = Inr (Frame df))
   \<and> (\<forall>e named projection compiled df col. expr = ColumnExpr e
          \<and> expr_name g e ''tmp'' = Inr named \<and> to_projection g named = Inr projection
          \<and> compile g (TableExpr projection) timecontext params = Inr compiled
          \<and> toPandas g compiled = Inr df \<and> frame_column g df ''tmp'' = Inr col \<longrightarrow>
        execute g expr timecontext params = Inr (Series col))
   \<and> (\<forall>e f df cell. expr = ScalarExpr e
          \<and> compile g expr timecontext params = Inr (DataFrame f)
          \<and> toPandas g (DataFrame f) = Inr df \<and> frame_iloc g df 0 0 = Inr cell \<longrightarrow>
        execute g expr timecontext params = Inr (Cell cell))
   \<and> (\<forall>e c f df cell. expr = ScalarExpr e
          \<and> compile g expr timecontext params = Inr (Column c) \<and> range_select g c = Inr f
          \<and> toPandas g (DataFrame f) = Inr df \<and> frame_iloc g df 0 0 = Inr cell \<longrightarrow>
        execute g expr timecontext params = Inr (Cell cell))"
  by (cases expr) (auto simp: execute_def bind_result_def)

lemmas example_engine_eval = example_engine_def compile_def bind_result_def

text \<open>Witness for C7: one expression of each kind on the example engine.\<close>

theorem execute_dispatches_on_shape_witness:
  "execute example_engine (OtherExpr ''ExprList'' ''xs'') None None
     = Inl (IbisError ''Cannot execute expression of type: ExprList'')
   \<and> execute example_engine (TableExpr ''t'') None None = Inr (Frame ''pandas frame t'')
   \<and> execute example_engine (ColumnExpr ''c'') None None
     = Inr (Series ''pandas frame select c as tmp [tmp]'')
   \<and> execute example_engine (ScalarExpr ''s'') None None
     = Inr (Cell ''cell of pandas one row of column s'')"
proof -
  note T = execute_dispatches_on_shape [where g = example_engine and timecontext = None and params = None]
  have "\<exists>ty. execute example_engine (OtherExpr ''ExprList'' ''xs'') None None
              = Inl (IbisError (''Cannot execute expression of type: '' @ ty))"
    using T [where expr = "OtherExpr ''ExprList'' ''xs''", THEN conjunct1] by simp
  then have 0: "execute example_engine (OtherExpr ''ExprList'' ''xs'') None None
     = Inl (IbisError ''Cannot execute expression of type: ExprList'')"
    by (simp add: execute_def)
  have c1: "compile example_engine (TableExpr ''t'') None None = Inr (DataFrame ''frame t'')"
    and p1: "toPandas example_engine (DataFrame ''frame t'') = Inr ''pandas frame t''"
    by (simp_all add: example_engine_eval)
  have 1: "execute example_engine (TableExpr ''t'') None None = Inr (Frame ''pandas frame t'')"
    using T [where expr = "TableExpr ''t''", THEN conjunct2, THEN conjunct1, rule_format,
             of "''t''" "DataFrame ''frame t''" "''pandas frame t''"]
          c1 p1
    by simp
  have n2: "expr_name example_engine ''c'' ''tmp'' = Inr ''c as tmp''"
    and j2: "to_projection example_engine ''c as tmp'' = Inr ''select c as tmp''"
    and c2: "compile example_engine (TableExpr ''select c as tmp'') None None
             = Inr (DataFrame ''frame select c as tmp'')"
    and p2: "toPandas example_engine (DataFrame ''frame select c as tmp'')
             = Inr ''pandas frame select c as tmp''"
    and g2: "frame_column example_engine ''pandas frame select c as tmp'' ''tmp''
             = Inr ''pandas frame select c as tmp [tmp]''"
    by (simp_all add: example_engine_eval)
  have 2: "execute example_engine (ColumnExpr ''c'') None None
     = Inr (Series ''pandas frame select c as tmp [tmp]'')"
    using T [where expr = "ColumnExpr ''c''", THEN conjunct2, THEN conjunct2, THEN conjunct1,
             rule_format,
             of "''c''" "''c as tmp''" "''select c as tmp''" "DataFrame ''frame select c as tmp''"
                "''pandas frame select c as tmp''" "''pandas frame select c as tmp [tmp]''"]
          n2 j2 c2 p2 g2
    by simp
  have c3: "compile example_engine (ScalarExpr ''s'') None None = Inr (Column ''column s'')"
    and r3: "range_select example_engine ''column s'' = Inr ''one row of column s''"
    and p3: "toPandas example_engine (DataFrame ''one row of column s'')
             = Inr ''pandas one row of column s''"
    and i3: "frame_iloc example_engine ''pandas one row of column s'' 0 0
             = Inr ''cell of pandas one row of column s''"
    by (simp_all add: example_engine_eval)
  have 3: "execute example_engine (ScalarExpr ''s'') None None
     = Inr (Cell ''cell of pandas one row of column s'')"
    using T [where expr = "ScalarExpr ''s''", THEN conjunct2, THEN conjunct2, THEN conjunct2,
             THEN conjunct2, rule_format,
             of "''s''" "''column s''" "''one row of column s''" "''pandas one row of column s''"
                "''cell of pandas one row of column s''"]
          c3 r3 p3 i3
    by simp
  from 0 1 2 3 show ?thesis by simp
qed

end
